theory Spec2Isabelle
  imports Main
begin

section \<open>Data model of the server core\<close>

text \<open>
  The embedding follows \<^verbatim>\<open>packages/language-server/src/common/server.ts\<close>. Each handler
  that \<^verbatim>\<open>startCommonLanguageServer\<close> installs is a sequence of statements on the variables
  of that function. A call that leaves the file (to the connection, the runtime
  environment, a plugin, the registry) is recorded in the order it is made and may throw;
  which calls throw is a parameter. A handler runs to its end before the next message is
  handled. A parsed URI is identified by its normal form; the two \<^verbatim>\<open>vscode-uri\<close>
  constructors, which compute it, are parameters, so that two spellings may give one URI.
\<close>

datatype URI = URI string

record SemanticTokensLegend =
  tokenTypes :: "string list"
  tokenModifiers :: "string list"

datatype ServerMode = Semantic | PartialSemantic | Syntactic

text \<open>The initialization options, with the fields that \<^verbatim>\<open>server.ts\<close> reads.\<close>

record LanguageServerInitializationOptions =
  l10n :: "string option"
  textDocumentSync :: "int option"
  typescript :: "string option"
  serverMode :: "ServerMode option"
  disableFileWatcher :: "bool option"
  cancellationPipeName :: "string option"
  semanticTokensLegend :: "SemanticTokensLegend option"

record DidChangeWatchedFilesClientCapabilities =
  dynamicRegistration :: "bool option"

record WorkspaceClientCapabilities =
  workspaceFolders_cap :: "bool option"
  configuration :: "bool option"
  didChangeWatchedFiles :: "DidChangeWatchedFilesClientCapabilities option"

record ClientCapabilities =
  workspace :: "WorkspaceClientCapabilities option"

record WorkspaceFolder =
  uri :: string
  name :: string

record InitializeParams =
  capabilities :: ClientCapabilities
  workspaceFolders :: "WorkspaceFolder list option"
  rootUri :: "string option"
  rootPath :: "string option"
  params_locale :: "string option"
  initializationOptions :: "LanguageServerInitializationOptions option"


text \<open>
  The server capabilities: the field the handler sets itself, and the entries that
  \<^verbatim>\<open>setupCapabilities\<close> and the plugins may add.
\<close>

record ServerCapabilities =
  cap_textDocumentSync :: "int option"
  cap_other :: "(string \<times> string) list"

record ServerInfo =
  info_name :: string
  info_version :: string

record InitializeResult =
  result_capabilities :: ServerCapabilities
  serverInfo :: "ServerInfo option"

text \<open>
  A plugin instance, as returned by \<^verbatim>\<open>plugin(options)\<close>: its file-watcher extensions and
  its two optional hooks. \<^verbatim>\<open>onInitialize\<close> receives the mutable initialize result.
\<close>

record LanguageServerPluginInstance =
  extensions_fileWatcher :: "string list option"
  plugin_onInitialize :: "(InitializeResult \<Rightarrow> InitializeResult) option"
  plugin_onInitialized :: bool

text \<open>The Project Registry: the keys of its \<^verbatim>\<open>workspaces\<close> map, in iteration order.\<close>

record Projects =
  workspaces :: "string list"

datatype FileSystemHost = FileSystemHost

datatype ConfigurationHost = ConfigurationHost

text \<open>Every call that leaves \<^verbatim>\<open>server.ts\<close>, in the order the handlers make them.\<close>

datatype event =
    PluginCreate nat
  | L10nConfig string
  | CreateConfigurationHost
  | SetupCapabilities SemanticTokensLegend
  | LoadTypescript string
  | CreateFileSystemHost
  | LoadTypescriptLocalized string string
  | CreateCancellationTokenHost "string option"
  | CreateWorkspaces
  | ProjectsAdd URI
  | ProjectsRemove URI
  | RegisterCustomFeatures
  | RegisterLanguageFeatures SemanticTokensLegend
  | PluginOnInitialized nat
  | RequirePackageJson
  | PluginOnInitialize nat
  | FsHostReady
  | ConfigurationHostReady
  | RegisterDidChangeWorkspaceFolders
  | ClientRegisterWatchedFiles string
  | AwaitWorkspace string
  | WorkspaceDispose string

datatype exn = TypeError | Thrown event

text \<open>
  The collaborators of the server core: \<^verbatim>\<open>URI.parse\<close> and \<^verbatim>\<open>URI.file\<close>, the registered
  plugin factories, which of the outgoing calls throw, and the parts of the repository that \<^verbatim>\<open>server.ts\<close> only calls
  (\<^verbatim>\<open>setupCapabilities\<close>, \<^verbatim>\<open>createWorkspaces\<close> and the registry's \<^verbatim>\<open>add\<close> and
  \<^verbatim>\<open>remove\<close>, the package metadata), taken as parameters.
\<close>

record env =
  URI_parse :: "string \<Rightarrow> URI"
  URI_file :: "string \<Rightarrow> URI"
  context_plugins :: "(LanguageServerInitializationOptions option \<Rightarrow> LanguageServerPluginInstance) list"
  fails :: "event \<Rightarrow> bool"
  setupCapabilities :: "ClientCapabilities \<Rightarrow> ServerCapabilities \<Rightarrow> LanguageServerInitializationOptions
     \<Rightarrow> LanguageServerPluginInstance list \<Rightarrow> SemanticTokensLegend \<Rightarrow> ServerCapabilities"
  createWorkspaces :: Projects
  projects_add :: "URI \<Rightarrow> Projects \<Rightarrow> Projects"
  projects_remove :: "URI \<Rightarrow> Projects \<Rightarrow> Projects"
  packageJson :: ServerInfo

text \<open>
  The variables of \<^verbatim>\<open>startCommonLanguageServer\<close> that the handlers share, the local
  \<^verbatim>\<open>result\<close> of the initialize handler, the number of workspace-folder listeners
  installed on the connection, and the calls made so far.
\<close>

record server =
  initParams :: "InitializeParams option"
  options :: "LanguageServerInitializationOptions option"
  roots :: "URI list"
  fsHost :: "FileSystemHost option"
  projects :: "Projects option"
  configurationHost :: "ConfigurationHost option"
  plugins :: "LanguageServerPluginInstance list option"
  result :: "InitializeResult option"
  folders_listeners :: nat
  trace :: "event list"

definition startCommonLanguageServer :: server where
  "startCommonLanguageServer =
     \<lparr>initParams = None, options = None, roots = [], fsHost = None, projects = None,
      configurationHost = None, plugins = None, result = None, folders_listeners = 0,
      trace = []\<rparr>"

section \<open>Statements\<close>

text \<open>
  A statement runs on the server state and either completes or throws; the state it
  leaves behind is kept in both cases, as the variables of the closure are.
\<close>

type_synonym stmt = "server \<Rightarrow> exn option \<times> server"

definition skip :: stmt where
  "skip s = (None, s)"

definition assign :: "(server \<Rightarrow> server) \<Rightarrow> stmt" where
  "assign f s = (None, f s)"

definition call :: "env \<Rightarrow> event \<Rightarrow> stmt" where
  "call e ev s = (if fails e ev then Some (Thrown ev) else None, s\<lparr>trace := trace s @ [ev]\<rparr>)"

fun seq :: "stmt list \<Rightarrow> stmt" where
  "seq [] s = (None, s)"
| "seq (c # cs) s = (case c s of (None, s') \<Rightarrow> seq cs s' | (Some x, s') \<Rightarrow> (Some x, s'))"

declare seq.simps(2) [simp del]

definition if_stmt :: "(server \<Rightarrow> bool) \<Rightarrow> stmt \<Rightarrow> stmt" where
  "if_stmt b c s = (if b s then c s else (None, s))"

definition for_each :: "(server \<Rightarrow> 'a list) \<Rightarrow> ('a \<Rightarrow> stmt) \<Rightarrow> stmt" where
  "for_each xs body s = seq (map body (xs s)) s"

text \<open>Reading a property of a variable that is still \<^verbatim>\<open>undefined\<close> throws a TypeError.\<close>

definition reading :: "(server \<Rightarrow> 'a option) \<Rightarrow> ('a \<Rightarrow> stmt) \<Rightarrow> stmt" where
  "reading var body s = (case var s of None \<Rightarrow> (Some TypeError, s) | Some v \<Rightarrow> body v s)"

text \<open>\<^verbatim>\<open>try { ... } catch { }\<close>: whatever the block throws is dropped.\<close>

definition try_catch :: "stmt \<Rightarrow> stmt" where
  "try_catch c s = (None, snd (c s))"

text \<open>JavaScript truthiness of an optional boolean and of an optional string.\<close>

definition truthy :: "bool option \<Rightarrow> bool" where
  "truthy b = (b = Some True)"

definition truthy_string :: "string option \<Rightarrow> bool" where
  "truthy_string x = (case x of None \<Rightarrow> False | Some v \<Rightarrow> v \<noteq> [])"

text \<open>\<^verbatim>\<open>vscode.TextDocumentSyncKind.Incremental\<close>\<close>

definition Incremental :: int where
  "Incremental = 2"

text \<open>\<^verbatim>\<open>capabilities.workspace?.field\<close>\<close>

definition workspace_cap :: "(WorkspaceClientCapabilities \<Rightarrow> 'a option) \<Rightarrow> InitializeParams \<Rightarrow> 'a option" where
  "workspace_cap field p = (case workspace (capabilities p) of None \<Rightarrow> None | Some w \<Rightarrow> field w)"

section \<open>The semantic-token legend\<close>

definition standardSemanticTokensLegend :: SemanticTokensLegend where
  "standardSemanticTokensLegend =
     \<lparr>tokenTypes =
        [''namespace'', ''class'', ''enum'', ''interface'', ''struct'', ''typeParameter'',
         ''type'', ''parameter'', ''variable'', ''property'', ''enumMember'', ''decorator'',
         ''event'', ''function'', ''method'', ''macro'', ''label'', ''comment'', ''string'',
         ''keyword'', ''number'', ''regexp'', ''operator''],
      tokenModifiers =
        [''declaration'', ''definition'', ''readonly'', ''static'', ''deprecated'',
         ''abstract'', ''async'', ''modification'', ''documentation'', ''defaultLibrary'']\<rparr>"

definition getSemanticTokensLegend :: "LanguageServerInitializationOptions \<Rightarrow> SemanticTokensLegend" where
  "getSemanticTokensLegend opts =
     (case semanticTokensLegend opts of
        None \<Rightarrow> standardSemanticTokensLegend
      | Some extra \<Rightarrow>
          \<lparr>tokenTypes = tokenTypes standardSemanticTokensLegend @ tokenTypes extra,
           tokenModifiers = tokenModifiers standardSemanticTokensLegend @ tokenModifiers extra\<rparr>)"

section \<open>The handlers\<close>

text \<open>A hook loop visits the plugins with their position in the list.\<close>

definition indexed :: "'a list \<Rightarrow> (nat \<times> 'a) list" where
  "indexed xs = zip [0..<length xs] xs"

definition projects_add_stmt :: "env \<Rightarrow> URI \<Rightarrow> stmt" where
  "projects_add_stmt e root =
     seq [call e (ProjectsAdd root),
          assign (\<lambda>s. s\<lparr>projects := map_option (projects_add e root) (projects s)\<rparr>)]"


text \<open>
  \<^verbatim>\<open>loadTypescript\<close> returns the TypeScript module, so the file-system host is created
  whenever the options name a TypeScript SDK.
\<close>

definition createLanguageServiceHost :: "env \<Rightarrow> stmt" where
  "createLanguageServiceHost e =
     reading options (\<lambda>opts. seq [
       (case typescript opts of
          None \<Rightarrow> assign (\<lambda>s. s\<lparr>fsHost := None\<rparr>)
        | Some tsdk \<Rightarrow> seq [
            call e (LoadTypescript tsdk),
            reading initParams (\<lambda>params. call e CreateFileSystemHost),
            assign (\<lambda>s. s\<lparr>fsHost := Some FileSystemHost\<rparr>)]),
       (case typescript opts of
          None \<Rightarrow> skip
        | Some tsdk \<Rightarrow>
            reading initParams (\<lambda>params.
              (case params_locale params of
                 None \<Rightarrow> skip
               | Some loc \<Rightarrow> if_stmt (\<lambda>s. loc \<noteq> []) (call e (LoadTypescriptLocalized tsdk loc))))),
       call e (CreateCancellationTokenHost (cancellationPipeName opts)),
       call e CreateWorkspaces,
       assign (\<lambda>s. s\<lparr>projects := Some (createWorkspaces e)\<rparr>),
       for_each roots (projects_add_stmt e),
       call e RegisterCustomFeatures,
       call e (RegisterLanguageFeatures (getSemanticTokensLegend opts)),
       reading plugins (\<lambda>ps.
         for_each (\<lambda>s. indexed ps) (\<lambda>(i, plugin).
           if_stmt (\<lambda>s. plugin_onInitialized plugin) (call e (PluginOnInitialized i))))])"

text \<open>
  The \<^verbatim>\<open>if\<close> chain that sets \<^verbatim>\<open>roots\<close>; when no branch applies the variable keeps its
  value.
\<close>

definition initial_roots :: "env \<Rightarrow> InitializeParams \<Rightarrow> URI list \<Rightarrow> URI list" where
  "initial_roots e params old =
     (if truthy (workspace_cap workspaceFolders_cap params) \<and> workspaceFolders params \<noteq> None
      then map (\<lambda>folder. URI_parse e (uri folder)) (case workspaceFolders params of None \<Rightarrow> [] | Some fs \<Rightarrow> fs)
      else if truthy_string (rootUri params)
      then (case rootUri params of None \<Rightarrow> old | Some u \<Rightarrow> [URI_parse e u])
      else if truthy_string (rootPath params)
      then (case rootPath params of None \<Rightarrow> old | Some p \<Rightarrow> [URI_file e p])
      else old)"

definition onInitialize_body :: "env \<Rightarrow> InitializeParams \<Rightarrow> stmt" where
  "onInitialize_body e params = seq [
     assign (\<lambda>s. s\<lparr>initParams := Some params\<rparr>),
     assign (\<lambda>s. s\<lparr>options := initializationOptions params\<rparr>),
     for_each (\<lambda>s. [0..<length (context_plugins e)]) (\<lambda>i. call e (PluginCreate i)),
     assign (\<lambda>s. s\<lparr>plugins := Some (map (\<lambda>plugin. plugin (options s)) (context_plugins e))\<rparr>),
     reading options (\<lambda>opts.
       (case l10n opts of None \<Rightarrow> skip | Some location \<Rightarrow> call e (L10nConfig location))),
     assign (\<lambda>s. s\<lparr>roots := initial_roots e params (roots s)\<rparr>),
     reading options (\<lambda>opts. assign (\<lambda>s. s\<lparr>result := Some
       \<lparr>result_capabilities =
          \<lparr>cap_textDocumentSync = Some (case textDocumentSync opts of None \<Rightarrow> Incremental | Some kind \<Rightarrow> kind),
           cap_other = []\<rparr>,
        serverInfo = None\<rparr>\<rparr>)),
     (if truthy (workspace_cap configuration params)
      then seq [call e CreateConfigurationHost,
                assign (\<lambda>s. s\<lparr>configurationHost := Some ConfigurationHost\<rparr>)]
      else assign (\<lambda>s. s\<lparr>configurationHost := None\<rparr>)),
     reading options (\<lambda>opts. reading plugins (\<lambda>ps. reading result (\<lambda>r. seq [
       call e (SetupCapabilities (getSemanticTokensLegend opts)),
       assign (\<lambda>s. s\<lparr>result := Some (r\<lparr>result_capabilities :=
         setupCapabilities e (capabilities params) (result_capabilities r) opts ps
           (getSemanticTokensLegend opts)\<rparr>)\<rparr>)]))),
     createLanguageServiceHost e,
     try_catch (seq [
       call e RequirePackageJson,
       assign (\<lambda>s. s\<lparr>result := map_option (\<lambda>r. r\<lparr>serverInfo := Some (packageJson e)\<rparr>) (result s)\<rparr>)]),
     reading plugins (\<lambda>ps.
       for_each (\<lambda>s. indexed ps) (\<lambda>(i, plugin).
         (case plugin_onInitialize plugin of
            None \<Rightarrow> skip
          | Some hook \<Rightarrow> seq [
              call e (PluginOnInitialize i),
              assign (\<lambda>s. s\<lparr>result := map_option hook (result s)\<rparr>)])))]"

text \<open>The handler answers the request with \<^verbatim>\<open>result\<close>, or with the error thrown.\<close>

definition onInitialize :: "env \<Rightarrow> InitializeParams \<Rightarrow> server \<Rightarrow> (exn + InitializeResult) \<times> server" where
  "onInitialize e params s =
     (case onInitialize_body e params s of
        (Some x, s') \<Rightarrow> (Inl x, s')
      | (None, s') \<Rightarrow> (case result s' of None \<Rightarrow> (Inl TypeError, s') | Some r \<Rightarrow> (Inr r, s')))"

text \<open>\<^verbatim>\<open>Array.prototype.join\<close> on strings.\<close>

fun join :: "string \<Rightarrow> string list \<Rightarrow> string" where
  "join sep [] = []"
| "join sep [x] = x"
| "join sep (x # y # ys) = x @ sep @ join sep (y # ys)"

definition fileWatcher_exts :: "LanguageServerPluginInstance list \<Rightarrow> string list" where
  "fileWatcher_exts ps =
     concat (map (\<lambda>plugin. case extensions_fileWatcher plugin of None \<Rightarrow> [] | Some exts \<Rightarrow> exts) ps)"

definition globPattern :: "string list \<Rightarrow> string" where
  "globPattern exts = ''**/*.{'' @ join '','' exts @ ''}''"


text \<open>The condition under which the handler registers for watched files.\<close>

definition fileWatcher_enabled :: "LanguageServerInitializationOptions \<Rightarrow> InitializeParams \<Rightarrow> bool" where
  "fileWatcher_enabled opts params \<longleftrightarrow>
     serverMode opts \<noteq> Some Syntactic
     \<and> \<not> truthy (disableFileWatcher opts)
     \<and> truthy (case workspace_cap didChangeWatchedFiles params of
                 None \<Rightarrow> None | Some w \<Rightarrow> dynamicRegistration w)"

definition onInitialized :: "env \<Rightarrow> stmt" where
  "onInitialized e = seq [
     if_stmt (\<lambda>s. fsHost s \<noteq> None) (call e FsHostReady),
     if_stmt (\<lambda>s. configurationHost s \<noteq> None) (call e ConfigurationHostReady),
     reading initParams (\<lambda>params.
       if_stmt (\<lambda>s. truthy (workspace_cap workspaceFolders_cap params)) (seq [
         call e RegisterDidChangeWorkspaceFolders,
         assign (\<lambda>s. s\<lparr>folders_listeners := Suc (folders_listeners s)\<rparr>)])),
     reading options (\<lambda>opts. reading initParams (\<lambda>params.
       if_stmt (\<lambda>s. fileWatcher_enabled opts params)
         (reading plugins (\<lambda>ps.
            if_stmt (\<lambda>s. fileWatcher_exts ps \<noteq> [])
              (call e (ClientRegisterWatchedFiles (globPattern (fileWatcher_exts ps))))))))]"


text \<open>
  The loop body of the shutdown handler, \<^verbatim>\<open>(await workspace[1]).dispose()\<close>: the promise
  of the host is awaited, the result of \<^verbatim>\<open>dispose\<close> is not.
\<close>

definition dispose_stmt :: "env \<Rightarrow> string \<Rightarrow> stmt" where
  "dispose_stmt e key = seq [call e (AwaitWorkspace key), call e (WorkspaceDispose key)]"

definition onShutdown :: "env \<Rightarrow> stmt" where
  "onShutdown e s =
     (case projects s of
        None \<Rightarrow> (None, s)
      | Some p \<Rightarrow> for_each (\<lambda>s. workspaces p) (dispose_stmt e) s)"

section \<open>The calls of a completed handler\<close>

text \<open>None of the calls in the list throws.\<close>

definition succeed :: "env \<Rightarrow> event list \<Rightarrow> bool" where
  "succeed e evs = (\<forall>ev\<in>set evs. \<not> fails e ev)"

text \<open>The hooks that the plugins define, in registration order.\<close>

definition initialized_hooks :: "LanguageServerPluginInstance list \<Rightarrow> event list" where
  "initialized_hooks ps =
     map (\<lambda>(i, plugin). PluginOnInitialized i)
       (filter (\<lambda>(i, plugin). plugin_onInitialized plugin) (indexed ps))"

definition initialize_hooks :: "LanguageServerPluginInstance list \<Rightarrow> event list" where
  "initialize_hooks ps =
     map (\<lambda>(i, plugin). PluginOnInitialize i)
       (filter (\<lambda>(i, plugin). plugin_onInitialize plugin \<noteq> None) (indexed ps))"

definition typescript_calls :: "LanguageServerInitializationOptions \<Rightarrow> InitializeParams \<Rightarrow> event list" where
  "typescript_calls opts params =
     (case typescript opts of
        None \<Rightarrow> []
      | Some tsdk \<Rightarrow> [LoadTypescript tsdk, CreateFileSystemHost] @
          (case params_locale params of
             None \<Rightarrow> []
           | Some loc \<Rightarrow> if loc \<noteq> [] then [LoadTypescriptLocalized tsdk loc] else []))"

definition host_calls :: "LanguageServerInitializationOptions \<Rightarrow> InitializeParams \<Rightarrow> URI list
    \<Rightarrow> LanguageServerPluginInstance list \<Rightarrow> event list" where
  "host_calls opts params rs ps =
     typescript_calls opts params @
     [CreateCancellationTokenHost (cancellationPipeName opts), CreateWorkspaces] @
     map ProjectsAdd rs @
     [RegisterCustomFeatures, RegisterLanguageFeatures (getSemanticTokensLegend opts)] @
     initialized_hooks ps"

definition created_plugins :: "env \<Rightarrow> LanguageServerInitializationOptions \<Rightarrow> LanguageServerPluginInstance list" where
  "created_plugins e opts = map (\<lambda>plugin. plugin (Some opts)) (context_plugins e)"

definition handshake_calls :: "env \<Rightarrow> InitializeParams \<Rightarrow> LanguageServerInitializationOptions
    \<Rightarrow> URI list \<Rightarrow> event list" where
  "handshake_calls e params opts rs =
     map PluginCreate [0..<length (context_plugins e)] @
     (case l10n opts of None \<Rightarrow> [] | Some location \<Rightarrow> [L10nConfig location]) @
     (if truthy (workspace_cap configuration params) then [CreateConfigurationHost] else []) @
     [SetupCapabilities (getSemanticTokensLegend opts)] @
     host_calls opts params rs (created_plugins e opts)"

definition run_hooks :: "LanguageServerPluginInstance list \<Rightarrow> InitializeResult \<Rightarrow> InitializeResult" where
  "run_hooks ps r =
     fold (\<lambda>plugin r. case plugin_onInitialize plugin of None \<Rightarrow> r | Some hook \<Rightarrow> hook r) ps r"

definition initialize_result :: "env \<Rightarrow> InitializeParams \<Rightarrow> LanguageServerInitializationOptions
    \<Rightarrow> InitializeResult" where
  "initialize_result e params opts =
     run_hooks (created_plugins e opts)
       \<lparr>result_capabilities =
          setupCapabilities e (capabilities params)
            \<lparr>cap_textDocumentSync =
               Some (case textDocumentSync opts of None \<Rightarrow> Incremental | Some kind \<Rightarrow> kind),
             cap_other = []\<rparr>
            opts (created_plugins e opts) (getSemanticTokensLegend opts),
        serverInfo = (if fails e RequirePackageJson then None else Some (packageJson e))\<rparr>"

text \<open>The state that a completed handshake leaves.\<close>

definition handshake_state :: "env \<Rightarrow> InitializeParams \<Rightarrow> LanguageServerInitializationOptions
    \<Rightarrow> server \<Rightarrow> server" where
  "handshake_state e params opts s =
     s\<lparr>initParams := Some params, options := Some opts,
       plugins := Some (created_plugins e opts),
       roots := initial_roots e params (roots s),
       configurationHost :=
         (if truthy (workspace_cap configuration params) then Some ConfigurationHost else None),
       fsHost := (case typescript opts of None \<Rightarrow> None | Some tsdk \<Rightarrow> Some FileSystemHost),
       projects := Some (fold (projects_add e) (initial_roots e params (roots s)) (createWorkspaces e)),
       result := Some (initialize_result e params opts),
       trace := trace s @ handshake_calls e params opts (initial_roots e params (roots s)) @
         [RequirePackageJson] @ initialize_hooks (created_plugins e opts)\<rparr>"

definition dispose_calls :: "string list \<Rightarrow> event list" where
  "dispose_calls keys = concat (map (\<lambda>key. [AwaitWorkspace key, WorkspaceDispose key]) keys)"


text \<open>The calls made since an earlier state.\<close>

definition new_calls :: "server \<Rightarrow> server \<Rightarrow> event list" where
  "new_calls s s' = drop (length (trace s)) (trace s')"

text \<open>The call \<open>a\<close> is made before the first call \<open>b\<close>.\<close>

definition fires_before :: "event \<Rightarrow> event \<Rightarrow> event list \<Rightarrow> bool" where
  "fires_before a b calls = (a \<in> set (takeWhile (\<lambda>ev. ev \<noteq> b) calls))"

text \<open>The calls of a completed \<^verbatim>\<open>initialized\<close> handler.\<close>

definition ready_calls :: "server \<Rightarrow> InitializeParams \<Rightarrow> event list" where
  "ready_calls s params =
     (if fsHost s \<noteq> None then [FsHostReady] else []) @
     (if configurationHost s \<noteq> None then [ConfigurationHostReady] else []) @
     (if truthy (workspace_cap workspaceFolders_cap params) then [RegisterDidChangeWorkspaceFolders] else [])"

definition watcher_calls :: "LanguageServerInitializationOptions \<Rightarrow> InitializeParams
    \<Rightarrow> LanguageServerPluginInstance list \<Rightarrow> event list" where
  "watcher_calls opts params ps =
     (if fileWatcher_enabled opts params \<and> fileWatcher_exts ps \<noteq> []
      then [ClientRegisterWatchedFiles (globPattern (fileWatcher_exts ps))] else [])"


text \<open>The live Project Hosts: the entries of \<^verbatim>\<open>projects.workspaces\<close>, if the registry exists.\<close>

definition live_hosts :: "server \<Rightarrow> string list" where
  "live_hosts s = (case projects s of None \<Rightarrow> [] | Some p \<Rightarrow> workspaces p)"

fun is_ProjectsAdd :: "event \<Rightarrow> bool" where
  "is_ProjectsAdd (ProjectsAdd root) = True"
| "is_ProjectsAdd ev = False"

section \<open>The specification's wording\<close>

text \<open>
  The root set in the words of C6: the workspace folders when the client advertises
  workspace-folder support and folders are supplied, otherwise the single \<^verbatim>\<open>rootUri\<close>,
  otherwise the single \<^verbatim>\<open>rootPath\<close>, otherwise empty. An empty string counts as not
  supplied, as it does in JavaScript.
\<close>

definition handshake_roots :: "env \<Rightarrow> InitializeParams \<Rightarrow> URI list" where
  "handshake_roots e params =
     (case (if truthy (workspace_cap workspaceFolders_cap params) then workspaceFolders params else None) of
        Some folders \<Rightarrow> map (\<lambda>folder. URI_parse e (uri folder)) folders
      | None \<Rightarrow>
          (case rootUri params of
             Some (c # cs) \<Rightarrow> [URI_parse e (c # cs)]
           | _ \<Rightarrow>
               (case rootPath params of
                  Some (c # cs) \<Rightarrow> [URI_file e (c # cs)]
                | _ \<Rightarrow> [])))"

text \<open>
  The watched extensions in the words of C3: the union of the plugins' extensions and a
  base set, with duplicates removed.
\<close>

definition deduplicated_extensions :: "string list \<Rightarrow> LanguageServerPluginInstance list \<Rightarrow> string list" where
  "deduplicated_extensions base ps = remdups (fileWatcher_exts ps @ base)"

section \<open>A sample session\<close>

text \<open>
  Two plugins that watch the same extension and define both hooks, a client that advertises
  every workspace capability, and a registry whose \<^verbatim>\<open>add\<close> is idempotent.
\<close>

definition example_options :: LanguageServerInitializationOptions where
  "example_options =
     \<lparr>l10n = None, textDocumentSync = None, typescript = None, serverMode = None,
      disableFileWatcher = None, cancellationPipeName = None,
      semanticTokensLegend = Some \<lparr>tokenTypes = [''foo'', ''class''], tokenModifiers = [''bar'']\<rparr>\<rparr>"

definition example_plugin :: LanguageServerPluginInstance where
  "example_plugin =
     \<lparr>extensions_fileWatcher = Some [''vue''], plugin_onInitialize = Some (\<lambda>r. r),
      plugin_onInitialized = True\<rparr>"

fun uri_key :: "URI \<Rightarrow> string" where
  "uri_key (URI u) = u"

definition example_env :: env where
  "example_env =
     \<lparr>URI_parse = URI, URI_file = (\<lambda>path. URI (''file://'' @ path)),
      context_plugins = [\<lambda>opts. example_plugin, \<lambda>opts. example_plugin],
      fails = (\<lambda>ev. False),
      setupCapabilities = (\<lambda>client caps opts ps legend. caps),
      createWorkspaces = \<lparr>workspaces = []\<rparr>,
      projects_add = (\<lambda>root p. if uri_key root \<in> set (workspaces p) then p
                                 else p\<lparr>workspaces := workspaces p @ [uri_key root]\<rparr>),
      projects_remove = (\<lambda>root p. p\<lparr>workspaces := removeAll (uri_key root) (workspaces p)\<rparr>),
      packageJson = \<lparr>info_name = ''@volar/language-server'', info_version = ''1.0.0''\<rparr>\<rparr>"

definition example_params :: InitializeParams where
  "example_params =
     \<lparr>capabilities = \<lparr>workspace = Some
        \<lparr>workspaceFolders_cap = Some True, configuration = Some True,
         didChangeWatchedFiles = Some \<lparr>dynamicRegistration = Some True\<rparr>\<rparr>\<rparr>,
      workspaceFolders = Some [\<lparr>uri = ''file:///a'', name = ''a''\<rparr>, \<lparr>uri = ''file:///b'', name = ''b''\<rparr>],
      rootUri = Some ''file:///a'', rootPath = None, params_locale = None,
      initializationOptions = Some example_options\<rparr>"

definition example_params_plain :: InitializeParams where
  "example_params_plain = example_params\<lparr>capabilities := \<lparr>workspace = None\<rparr>\<rparr>"

definition example_env_no_metadata :: env where
  "example_env_no_metadata = example_env\<lparr>fails := (\<lambda>ev. ev = RequirePackageJson)\<rparr>"

definition example_env_failing_dispose :: env where
  "example_env_failing_dispose = example_env\<lparr>fails := (\<lambda>ev. ev = WorkspaceDispose ''file:///a'')\<rparr>"

text \<open>The sample session after the handshake, and after the \<^verbatim>\<open>initialized\<close> notification.\<close>

definition example_ready :: server where
  "example_ready = handshake_state example_env example_params example_options startCommonLanguageServer"

definition example_listening :: server where
  "example_listening = example_ready\<lparr>trace := trace example_ready @
        [ConfigurationHostReady, RegisterDidChangeWorkspaceFolders,
         ClientRegisterWatchedFiles ''**/*.{vue,vue}''],
        folders_listeners := 1\<rparr>"

text \<open>
  The client names one folder twice; the first plugin's \<^verbatim>\<open>onInitialized\<close> hook throws;
  and the states such a handshake and a following \<^verbatim>\<open>initialized\<close> notification leave.
\<close>

definition example_params_twice :: InitializeParams where
  "example_params_twice = example_params\<lparr>workspaceFolders :=
     Some [\<lparr>uri = ''file:///a'', name = ''a''\<rparr>, \<lparr>uri = ''file:///a'', name = ''a''\<rparr>]\<rparr>"






section \<open>Completed statements\<close>

lemma skip_ok: "skip s = (None, t) \<longleftrightarrow> t = s"
  by (auto simp: skip_def)

lemma assign_ok: "assign f s = (None, t) \<longleftrightarrow> t = f s"
  by (auto simp: assign_def)

lemma call_ok: "call e ev s = (None, t) \<longleftrightarrow> \<not> fails e ev \<and> t = s\<lparr>trace := trace s @ [ev]\<rparr>"
  by (auto simp: call_def)

lemma seq_Cons_ok: "seq (c # cs) s = (None, t) \<longleftrightarrow> (\<exists>u. c s = (None, u) \<and> seq cs u = (None, t))"
  by (auto simp: seq.simps(2) split: prod.splits option.splits)

lemma seq_Nil_ok: "seq [] s = (None, t) \<longleftrightarrow> t = s"
  by auto

lemma if_stmt_ok: "if_stmt b c s = (None, t) \<longleftrightarrow> (if b s then c s = (None, t) else t = s)"
  by (auto simp: if_stmt_def)

lemma reading_ok: "reading v body s = (None, t) \<longleftrightarrow> (\<exists>x. v s = Some x \<and> body x s = (None, t))"
  by (auto simp: reading_def split: option.splits)

lemma try_catch_ok: "try_catch c s = (None, t) \<longleftrightarrow> t = snd (c s)"
  by (auto simp: try_catch_def)

lemma for_each_ok: "for_each xs body s = (None, t) \<longleftrightarrow> seq (map body (xs s)) s = (None, t)"
  by (simp add: for_each_def)

lemmas ok_simps =
  skip_ok assign_ok call_ok seq_Cons_ok seq_Nil_ok if_stmt_ok reading_ok try_catch_ok for_each_ok

lemma succeed_Nil: "succeed e [] = True"
  by (simp add: succeed_def)

lemma succeed_Cons: "succeed e (ev # evs) \<longleftrightarrow> \<not> fails e ev \<and> succeed e evs"
  by (simp add: succeed_def)

lemma succeed_append: "succeed e (xs @ ys) \<longleftrightarrow> succeed e xs \<and> succeed e ys"
  by (auto simp: succeed_def)

lemmas succeed_simps = succeed_Nil succeed_Cons succeed_append

lemma succeed_all: "\<forall>ev. \<not> fails e ev \<Longrightarrow> succeed e evs"
  by (simp add: succeed_def)

subsection \<open>The loops\<close>

lemma seq_map_call_ok:
  "seq (map (\<lambda>x. call e (f x)) xs) s = (None, t) \<longleftrightarrow>
     succeed e (map f xs) \<and> t = s\<lparr>trace := trace s @ map f xs\<rparr>"
proof (induction xs arbitrary: s)
  case Nil
  then show ?case by (auto simp: succeed_Nil)
next
  case (Cons x xs)
  then show ?case by (auto simp: seq_Cons_ok call_ok succeed_Cons)
qed

lemma adds_ok:
  "seq (map (projects_add_stmt e) rs) s = (None, t) \<longleftrightarrow>
     succeed e (map ProjectsAdd rs) \<and>
     t = s\<lparr>projects := map_option (fold (projects_add e) rs) (projects s),
           trace := trace s @ map ProjectsAdd rs\<rparr>"
proof (induction rs arbitrary: s)
  case Nil
  then show ?case by (auto simp: option.map_ident succeed_Nil)
next
  case (Cons r rs)
  then show ?case
    by (auto simp: seq_Cons_ok seq_Nil_ok call_ok assign_ok projects_add_stmt_def
        option.map_comp comp_def succeed_Cons)
qed

lemma initialized_loop_ok:
  "seq (map (\<lambda>(i, plugin). if_stmt (\<lambda>s. plugin_onInitialized plugin)
        (call e (PluginOnInitialized i))) ips) s = (None, t) \<longleftrightarrow>
     succeed e (map (\<lambda>(i, plugin). PluginOnInitialized i)
       (filter (\<lambda>(i, plugin). plugin_onInitialized plugin) ips)) \<and>
     t = s\<lparr>trace := trace s @ map (\<lambda>(i, plugin). PluginOnInitialized i)
       (filter (\<lambda>(i, plugin). plugin_onInitialized plugin) ips)\<rparr>"
proof (induction ips arbitrary: s)
  case Nil
  then show ?case by (auto simp: succeed_Nil)
next
  case (Cons ip ips)
  obtain i plugin where ip: "ip = (i, plugin)" by (cases ip)
  show ?case
    by (cases "plugin_onInitialized plugin")
      (auto simp: ip seq_Cons_ok if_stmt_ok call_ok Cons.IH succeed_Cons)
qed

lemma initialize_loop_ok:
  "seq (map (\<lambda>(i, plugin). case plugin_onInitialize plugin of None \<Rightarrow> skip
        | Some hook \<Rightarrow> seq [call e (PluginOnInitialize i),
            assign (\<lambda>s. s\<lparr>result := map_option hook (result s)\<rparr>)]) ips) s = (None, t) \<longleftrightarrow>
     succeed e (map (\<lambda>(i, plugin). PluginOnInitialize i)
       (filter (\<lambda>(i, plugin). plugin_onInitialize plugin \<noteq> None) ips)) \<and>
     t = s\<lparr>result := map_option (run_hooks (map snd ips)) (result s),
           trace := trace s @ map (\<lambda>(i, plugin). PluginOnInitialize i)
             (filter (\<lambda>(i, plugin). plugin_onInitialize plugin \<noteq> None) ips)\<rparr>"
proof (induction ips arbitrary: s)
  case Nil
  then show ?case by (auto simp: run_hooks_def option.map_ident succeed_Nil)
next
  case (Cons ip ips)
  obtain i plugin where ip: "ip = (i, plugin)" by (cases ip)
  show ?case
    by (cases "plugin_onInitialize plugin")
      (auto simp: ip ok_simps Cons.IH succeed_Cons run_hooks_def option.map_comp comp_def)
qed

lemma map_snd_indexed: "map snd (indexed xs) = xs"
  by (simp add: indexed_def)

lemma require_block:
  "snd (seq [call e RequirePackageJson, assign f] u) =
     (if fails e RequirePackageJson then u\<lparr>trace := trace u @ [RequirePackageJson]\<rparr>
      else f (u\<lparr>trace := trace u @ [RequirePackageJson]\<rparr>))"
  by (simp add: seq.simps(2) call_def assign_def)

subsection \<open>The handshake\<close>

lemma createLanguageServiceHost_ok:
  assumes params: "initParams s = Some params"
  shows "createLanguageServiceHost e s = (None, t) \<longleftrightarrow>
    (\<exists>opts ps. options s = Some opts \<and> plugins s = Some ps \<and>
       succeed e (host_calls opts params (roots s) ps) \<and>
       t = s\<lparr>fsHost := (case typescript opts of None \<Rightarrow> None | Some tsdk \<Rightarrow> Some FileSystemHost),
             projects := Some (fold (projects_add e) (roots s) (createWorkspaces e)),
             trace := trace s @ host_calls opts params (roots s) ps\<rparr>)"
proof (cases "options s")
  case None
  then show ?thesis by (simp add: createLanguageServiceHost_def reading_ok)
next
  case opts: (Some opts)
  note unfold = createLanguageServiceHost_def ok_simps adds_ok initialized_loop_ok host_calls_def
    typescript_calls_def initialized_hooks_def succeed_simps
  show ?thesis
  proof (cases "typescript opts")
    case None
    with params opts show ?thesis
      by (simp add: unfold) blast
  next
    case (Some tsdk)
    show ?thesis
    proof (cases "params_locale params")
      case None
      with Some params opts show ?thesis
        by (simp add: unfold) blast
    next
      case loc: (Some loc)
      with Some params opts show ?thesis
        by (cases "loc = []"; simp add: unfold; blast)
    qed
  qed
qed

lemma onInitialize_body_ok:
  "onInitialize_body e params s = (None, t) \<longleftrightarrow>
    (\<exists>opts. initializationOptions params = Some opts \<and>
       succeed e (handshake_calls e params opts (initial_roots e params (roots s))) \<and>
       succeed e (initialize_hooks (created_plugins e opts)) \<and>
       t = handshake_state e params opts s)"
proof (cases "initializationOptions params")
  case None
  then show ?thesis
    by (simp add: onInitialize_body_def ok_simps seq_map_call_ok)
next
  case (Some opts)
  note unfold = onInitialize_body_def ok_simps seq_map_call_ok createLanguageServiceHost_ok
    initialize_loop_ok require_block handshake_calls_def initialize_hooks_def initialize_result_def
    created_plugins_def map_snd_indexed succeed_simps handshake_state_def
  show ?thesis
  proof (cases "l10n opts")
    case None
    with Some show ?thesis
      by (cases "truthy (workspace_cap configuration params)"; cases "fails e RequirePackageJson")
        (simp_all add: unfold)
  next
    case loc: (Some location)
    with Some show ?thesis
      by (cases "truthy (workspace_cap configuration params)"; cases "fails e RequirePackageJson")
        (simp_all add: unfold)
  qed
qed

lemma onInitialize_ok:
  "onInitialize e params s = (Inr r, t) \<longleftrightarrow>
    (\<exists>opts. initializationOptions params = Some opts \<and>
       succeed e (handshake_calls e params opts (initial_roots e params (roots s))) \<and>
       succeed e (initialize_hooks (created_plugins e opts)) \<and>
       r = initialize_result e params opts \<and>
       t = handshake_state e params opts s)"
proof
  assume run: "onInitialize e params s = (Inr r, t)"
  then have body: "onInitialize_body e params s = (None, t)" and r: "result t = Some r"
    by (auto simp: onInitialize_def split: prod.splits option.splits)
  from body obtain opts where opts: "initializationOptions params = Some opts"
    and ok: "succeed e (handshake_calls e params opts (initial_roots e params (roots s)))"
      "succeed e (initialize_hooks (created_plugins e opts))"
    and t: "t = handshake_state e params opts s"
    unfolding onInitialize_body_ok by blast
  from t r have "r = initialize_result e params opts"
    by (simp add: handshake_state_def)
  with opts ok t show "\<exists>opts. initializationOptions params = Some opts \<and>
       succeed e (handshake_calls e params opts (initial_roots e params (roots s))) \<and>
       succeed e (initialize_hooks (created_plugins e opts)) \<and>
       r = initialize_result e params opts \<and>
       t = handshake_state e params opts s"
    by blast
next
  assume "\<exists>opts. initializationOptions params = Some opts \<and>
       succeed e (handshake_calls e params opts (initial_roots e params (roots s))) \<and>
       succeed e (initialize_hooks (created_plugins e opts)) \<and>
       r = initialize_result e params opts \<and>
       t = handshake_state e params opts s"
  then obtain opts where opts: "initializationOptions params = Some opts"
    and ok: "succeed e (handshake_calls e params opts (initial_roots e params (roots s)))"
      "succeed e (initialize_hooks (created_plugins e opts))"
    and r: "r = initialize_result e params opts"
    and t: "t = handshake_state e params opts s"
    by blast
  from opts ok t have body: "onInitialize_body e params s = (None, t)"
    unfolding onInitialize_body_ok by blast
  from t r have "result t = Some r"
    by (simp add: handshake_state_def)
  with body show "onInitialize e params s = (Inr r, t)"
    by (simp add: onInitialize_def)
qed

text \<open>A handshake in which no call throws completes.\<close>

lemma onInitialize_completes:
  assumes "\<forall>ev. ev \<noteq> RequirePackageJson \<longrightarrow> \<not> fails e ev"
    and "initializationOptions params = Some opts"
  shows "onInitialize e params s = (Inr (initialize_result e params opts), handshake_state e params opts s)"
proof -
  have pre: "succeed e (handshake_calls e params opts rs)" for rs
    unfolding succeed_def
  proof
    fix ev assume "ev \<in> set (handshake_calls e params opts rs)"
    then have "ev \<noteq> RequirePackageJson"
      by (auto simp: handshake_calls_def host_calls_def typescript_calls_def initialized_hooks_def
          split: option.splits if_splits)
    with assms(1) show "\<not> fails e ev" by blast
  qed
  have hooks: "succeed e (initialize_hooks ps)" for ps
    unfolding succeed_def
  proof
    fix ev assume "ev \<in> set (initialize_hooks ps)"
    then have "ev \<noteq> RequirePackageJson"
      by (auto simp: initialize_hooks_def)
    with assms(1) show "\<not> fails e ev" by blast
  qed
  note pre hooks
  with assms(2) show ?thesis
    unfolding onInitialize_ok by blast
qed

lemma handshake_calls_no_require: "RequirePackageJson \<notin> set (handshake_calls e params opts rs)"
  by (auto simp: handshake_calls_def host_calls_def typescript_calls_def initialized_hooks_def
      split: option.splits if_splits)

lemma initialize_hooks_no_require: "RequirePackageJson \<notin> set (initialize_hooks ps)"
  by (auto simp: initialize_hooks_def)

lemma count_distinct: "distinct xs \<Longrightarrow> x \<in> set xs \<Longrightarrow> count_list xs x = 1"
  by (induction xs) auto

lemma succeed_without_require:
  "RequirePackageJson \<notin> set evs \<Longrightarrow>
     succeed (e\<lparr>fails := (fails e)(RequirePackageJson := b)\<rparr>) evs = succeed e evs"
  by (auto simp: succeed_def)

lemma new_calls_append: "trace t = trace s @ calls \<Longrightarrow> new_calls s t = calls"
  by (simp add: new_calls_def)

lemma new_calls_handshake:
  "new_calls s (handshake_state e params opts s) =
     handshake_calls e params opts (initial_roots e params (roots s)) @ [RequirePackageJson] @
     initialize_hooks (created_plugins e opts)"
  by (simp add: new_calls_def handshake_state_def)

lemma initial_roots_first: "initial_roots e params [] = handshake_roots e params"
  by (auto simp: initial_roots_def handshake_roots_def truthy_string_def
      split: option.splits list.splits)

lemma filter_adds_handshake:
  "filter is_ProjectsAdd (handshake_calls e params opts rs @ [RequirePackageJson] @ initialize_hooks ps) =
     map ProjectsAdd rs"
proof -
  have "filter is_ProjectsAdd (map PluginCreate ns) = []" for ns
    by (induction ns) auto
  moreover have "filter is_ProjectsAdd (map ProjectsAdd rs) = map ProjectsAdd rs"
    by (induction rs) auto
  moreover have "filter is_ProjectsAdd (initialized_hooks ps') = []" for ps'
    by (auto simp: initialized_hooks_def filter_empty_conv)
  moreover have "filter is_ProjectsAdd (initialize_hooks ps) = []"
    by (auto simp: initialize_hooks_def filter_empty_conv)
  moreover have "filter is_ProjectsAdd (typescript_calls opts params) = []"
    by (auto simp: typescript_calls_def split: option.splits)
  ultimately show ?thesis
    by (simp add: handshake_calls_def host_calls_def split: option.splits)
qed

lemma count_adds: "count_list (map ProjectsAdd rs) (ProjectsAdd root) = count_list rs root"
  by (induction rs) auto

lemma count_filter_adds:
  "count_list (filter is_ProjectsAdd calls) (ProjectsAdd root) = count_list calls (ProjectsAdd root)"
  by (induction calls) auto

lemma run_hooks_keeps:
  assumes "\<forall>plugin\<in>set ps. \<forall>hook x. plugin_onInitialize plugin = Some hook \<longrightarrow> f (hook x) = f x"
  shows "f (run_hooks ps r) = f r"
  using assms
proof (induction ps arbitrary: r)
  case Nil
  then show ?case by (simp add: run_hooks_def)
next
  case (Cons plugin ps)
  have step: "run_hooks (plugin # ps) r =
      run_hooks ps (case plugin_onInitialize plugin of None \<Rightarrow> r | Some hook \<Rightarrow> hook r)"
    by (simp add: run_hooks_def)
  from Cons.prems have head: "f (case plugin_onInitialize plugin of None \<Rightarrow> r | Some hook \<Rightarrow> hook r) = f r"
    by (cases "plugin_onInitialize plugin") simp_all
  from Cons.prems have "\<forall>plugin\<in>set ps. \<forall>hook x. plugin_onInitialize plugin = Some hook \<longrightarrow> f (hook x) = f x"
    by simp
  from Cons.IH [OF this] head show ?case by (simp only: step)
qed

subsection \<open>The \<^verbatim>\<open>initialized\<close> notification and the folder changes\<close>

lemma listener_after_trace:
  "s\<lparr>folders_listeners := b, trace := calls\<rparr> = s\<lparr>trace := calls, folders_listeners := b\<rparr>"
  by (cases s) simp

lemma onInitialized_ok:
  assumes "plugins s = Some ps"
  shows "onInitialized e s = (None, t) \<longleftrightarrow>
    (\<exists>params opts. initParams s = Some params \<and> options s = Some opts \<and>
       succeed e (ready_calls s params @ watcher_calls opts params ps) \<and>
       t = s\<lparr>trace := trace s @ ready_calls s params @ watcher_calls opts params ps,
             folders_listeners := folders_listeners s +
               (if truthy (workspace_cap workspaceFolders_cap params) then 1 else 0)\<rparr>)"
proof (cases "initParams s")
  case None
  then show ?thesis
    by (auto simp: onInitialized_def ok_simps)
next
  case params: (Some params)
  show ?thesis
  proof (cases "options s")
    case None
    with params show ?thesis
      by (auto simp: onInitialized_def ok_simps)
  next
    case (Some opts)
    with params assms show ?thesis
      by (cases "fsHost s = None"; cases "configurationHost s = None";
          cases "truthy (workspace_cap workspaceFolders_cap params)";
          cases "fileWatcher_enabled opts params"; cases "fileWatcher_exts ps = []")
        (simp_all add: onInitialized_def ok_simps ready_calls_def watcher_calls_def succeed_simps
          listener_after_trace)
  qed
qed

lemma set_fileWatcher_exts:
  "set (fileWatcher_exts ps) =
     (\<Union>plugin\<in>set ps. case extensions_fileWatcher plugin of None \<Rightarrow> {} | Some exts \<Rightarrow> set exts)"
  by (induction ps) (auto simp: fileWatcher_exts_def split: option.splits)

lemma length_fileWatcher_exts:
  "length (fileWatcher_exts ps) =
     sum_list (map (\<lambda>plugin. case extensions_fileWatcher plugin of None \<Rightarrow> 0 | Some exts \<Rightarrow> length exts) ps)"
  by (induction ps) (auto simp: fileWatcher_exts_def split: option.splits)








subsection \<open>Only the \<^verbatim>\<open>initialized\<close> handler installs the listener\<close>



























subsection \<open>Shutdown\<close>

lemma dispose_loop_ok:
  "seq (map (dispose_stmt e) keys) s = (None, t) \<longleftrightarrow>
     succeed e (dispose_calls keys) \<and> t = s\<lparr>trace := trace s @ dispose_calls keys\<rparr>"
proof (induction keys arbitrary: s)
  case Nil
  then show ?case by (auto simp: dispose_calls_def succeed_Nil)
next
  case (Cons key keys)
  have calls: "dispose_calls (key # keys) = AwaitWorkspace key # WorkspaceDispose key # dispose_calls keys"
    by (simp add: dispose_calls_def)
  have step: "dispose_stmt e key s = (None, u) \<longleftrightarrow>
      \<not> fails e (AwaitWorkspace key) \<and> \<not> fails e (WorkspaceDispose key) \<and>
      u = s\<lparr>trace := trace s @ [AwaitWorkspace key, WorkspaceDispose key]\<rparr>" for u
    by (auto simp: dispose_stmt_def seq_Cons_ok seq_Nil_ok call_ok)
  show ?case
    by (auto simp: calls seq_Cons_ok step Cons.IH succeed_Cons)
qed

lemma onShutdown_ok:
  "onShutdown e s = (None, t) \<longleftrightarrow>
     succeed e (dispose_calls (live_hosts s)) \<and> t = s\<lparr>trace := trace s @ dispose_calls (live_hosts s)\<rparr>"
  by (cases "projects s")
    (auto simp: onShutdown_def live_hosts_def for_each_ok dispose_loop_ok dispose_calls_def succeed_Nil)

lemma seq_append:
  "seq (cs @ ds) s = (case seq cs s of (None, u) \<Rightarrow> seq ds u | (Some x, u) \<Rightarrow> (Some x, u))"
  by (induction cs arbitrary: s) (auto simp: seq.simps(2) split: prod.splits option.splits)

lemma dispose_stmt_throws:
  assumes "fails e (AwaitWorkspace key) \<or> fails e (WorkspaceDispose key)"
  shows "seq (dispose_stmt e key # cs) s =
     (Some (Thrown (if fails e (AwaitWorkspace key) then AwaitWorkspace key else WorkspaceDispose key)),
      s\<lparr>trace := trace s @ (if fails e (AwaitWorkspace key) then [AwaitWorkspace key]
         else [AwaitWorkspace key, WorkspaceDispose key])\<rparr>)"
  using assms by (auto simp: seq.simps(2) dispose_stmt_def call_def)

subsection \<open>The sample session\<close>

lemma example_run:
  "onInitialize example_env example_params startCommonLanguageServer =
     (Inr (initialize_result example_env example_params example_options),
      handshake_state example_env example_params example_options startCommonLanguageServer)"
  by (rule onInitialize_completes) (simp_all add: example_env_def example_params_def)

lemma example_parse: "URI_parse example_env u = URI u"
  by (simp add: example_env_def)

lemma example_plugins: "created_plugins example_env opts = [example_plugin, example_plugin]"
  by (simp add: created_plugins_def example_env_def)

lemma indexed_two: "indexed [x, y] = [(0, x), (1, y)]"
  by (simp add: indexed_def upt_rec)

lemma example_calls:
  "new_calls startCommonLanguageServer
     (handshake_state example_env example_params example_options startCommonLanguageServer) =
     [PluginCreate 0, PluginCreate 1, CreateConfigurationHost,
      SetupCapabilities (getSemanticTokensLegend example_options),
      CreateCancellationTokenHost None, CreateWorkspaces,
      ProjectsAdd (URI ''file:///a''), ProjectsAdd (URI ''file:///b''),
      RegisterCustomFeatures, RegisterLanguageFeatures (getSemanticTokensLegend example_options),
      PluginOnInitialized 0, PluginOnInitialized 1, RequirePackageJson,
      PluginOnInitialize 0, PluginOnInitialize 1]"
  apply (simp add: new_calls_handshake handshake_calls_def host_calls_def typescript_calls_def
      initialized_hooks_def initialize_hooks_def example_plugins indexed_two)
  apply (simp add: example_env_def example_params_def example_options_def example_plugin_def
      startCommonLanguageServer_def initial_roots_def truthy_def workspace_cap_def upt_rec)
  done

lemma example_roots:
  "initial_roots example_env example_params [] = [URI ''file:///a'', URI ''file:///b'']"
  by (simp add: initial_roots_def example_params_def truthy_def workspace_cap_def example_parse)

lemma example_registry:
  "fold (projects_add example_env) [URI ''file:///a'', URI ''file:///b'']
     (createWorkspaces example_env) = \<lparr>workspaces = [''file:///a'', ''file:///b'']\<rparr>"
  by (simp add: example_env_def)

lemma example_ready_fields:
  "plugins example_ready = Some [example_plugin, example_plugin]"
  "initParams example_ready = Some example_params"
  "options example_ready = Some example_options"
  "fsHost example_ready = None"
  "configurationHost example_ready = Some ConfigurationHost"
  "folders_listeners example_ready = 0"
  "projects example_ready = Some \<lparr>workspaces = [''file:///a'', ''file:///b'']\<rparr>"
proof -
  show "plugins example_ready = Some [example_plugin, example_plugin]"
    by (simp add: example_ready_def handshake_state_def example_plugins)
  show "initParams example_ready = Some example_params"
    and "options example_ready = Some example_options"
    by (simp_all add: example_ready_def handshake_state_def)
  show "fsHost example_ready = None"
    by (simp add: example_ready_def handshake_state_def example_options_def)
  show "configurationHost example_ready = Some ConfigurationHost"
    by (simp add: example_ready_def handshake_state_def example_params_def truthy_def workspace_cap_def)
  show "folders_listeners example_ready = 0"
    by (simp add: example_ready_def handshake_state_def startCommonLanguageServer_def)
  have "roots startCommonLanguageServer = []"
    by (simp add: startCommonLanguageServer_def)
  then show "projects example_ready = Some \<lparr>workspaces = [''file:///a'', ''file:///b'']\<rparr>"
    using example_registry
    by (simp add: example_ready_def handshake_state_def example_roots)
qed

lemma example_exts: "fileWatcher_exts [example_plugin, example_plugin] = [''vue'', ''vue'']"
  by (simp add: fileWatcher_exts_def example_plugin_def)

lemma example_enabled: "fileWatcher_enabled example_options example_params"
  by (simp add: fileWatcher_enabled_def example_options_def example_params_def truthy_def
      workspace_cap_def)

lemma example_initialized: "onInitialized example_env example_ready = (None, example_listening)"
  unfolding onInitialized_ok [OF example_ready_fields(1)] example_listening_def
  by (simp add: example_ready_fields ready_calls_def watcher_calls_def example_exts example_enabled
      succeed_all example_env_def globPattern_def)
    (simp add: example_params_def truthy_def workspace_cap_def)

lemma example_listening_fields:
  "folders_listeners example_listening = 1"
  "projects example_listening = Some \<lparr>workspaces = [''file:///a'', ''file:///b'']\<rparr>"
  "live_hosts example_listening = [''file:///a'', ''file:///b'']"
  "plugins example_listening = Some [example_plugin, example_plugin]"
  "initParams example_listening = Some example_params"
  by (simp_all add: example_listening_def example_ready_fields live_hosts_def)

lemma example_listening_calls:
  "new_calls example_ready example_listening =
     [ConfigurationHostReady, RegisterDidChangeWorkspaceFolders,
      ClientRegisterWatchedFiles ''**/*.{vue,vue}'']"
  by (simp add: example_listening_def new_calls_def)






section \<open>The semantic-token legend (C1)\<close>

text \<open>
  C1. The legend that a session negotiates is the standard legend with the token types and
  token modifiers of the \<^verbatim>\<open>semanticTokensLegend\<close> option appended, in the order given and
  without de-duplication: every entry occurs as often as in the standard list plus as often
  as it is contributed. It is this legend, and no other, that a completed handshake hands to
  \<^verbatim>\<open>setupCapabilities\<close> and to the language features.
\<close>

theorem legend_appends_contributions:
  "tokenTypes (getSemanticTokensLegend opts) =
     tokenTypes standardSemanticTokensLegend @
     (case semanticTokensLegend opts of None \<Rightarrow> [] | Some extra \<Rightarrow> tokenTypes extra) \<and>
   tokenModifiers (getSemanticTokensLegend opts) =
     tokenModifiers standardSemanticTokensLegend @
     (case semanticTokensLegend opts of None \<Rightarrow> [] | Some extra \<Rightarrow> tokenModifiers extra) \<and>
   count_list (tokenTypes (getSemanticTokensLegend opts)) t =
     count_list (tokenTypes standardSemanticTokensLegend) t +
     count_list (case semanticTokensLegend opts of None \<Rightarrow> [] | Some extra \<Rightarrow> tokenTypes extra) t \<and>
   count_list (tokenModifiers (getSemanticTokensLegend opts)) m =
     count_list (tokenModifiers standardSemanticTokensLegend) m +
     count_list (case semanticTokensLegend opts of None \<Rightarrow> [] | Some extra \<Rightarrow> tokenModifiers extra) m \<and>
   (onInitialize e params s = (Inr r, s') \<and> initializationOptions params = Some opts \<longrightarrow>
      (\<forall>legend. SetupCapabilities legend \<in> set (new_calls s s') \<or>
                RegisterLanguageFeatures legend \<in> set (new_calls s s') \<longrightarrow>
         legend = getSemanticTokensLegend opts) \<and>
      SetupCapabilities (getSemanticTokensLegend opts) \<in> set (new_calls s s') \<and>
      RegisterLanguageFeatures (getSemanticTokensLegend opts) \<in> set (new_calls s s'))"
proof -
  have lists: "tokenTypes (getSemanticTokensLegend opts) =
     tokenTypes standardSemanticTokensLegend @
     (case semanticTokensLegend opts of None \<Rightarrow> [] | Some extra \<Rightarrow> tokenTypes extra)"
    "tokenModifiers (getSemanticTokensLegend opts) =
     tokenModifiers standardSemanticTokensLegend @
     (case semanticTokensLegend opts of None \<Rightarrow> [] | Some extra \<Rightarrow> tokenModifiers extra)"
    by (simp_all add: getSemanticTokensLegend_def split: option.splits)
  have session: "(\<forall>legend. SetupCapabilities legend \<in> set (new_calls s s') \<or>
                RegisterLanguageFeatures legend \<in> set (new_calls s s') \<longrightarrow>
         legend = getSemanticTokensLegend opts) \<and>
      SetupCapabilities (getSemanticTokensLegend opts) \<in> set (new_calls s s') \<and>
      RegisterLanguageFeatures (getSemanticTokensLegend opts) \<in> set (new_calls s s')"
    if run: "onInitialize e params s = (Inr r, s')" and opts: "initializationOptions params = Some opts"
  proof -
    from run opts have s': "s' = handshake_state e params opts s"
      unfolding onInitialize_ok by auto
    show ?thesis
      by (auto simp: s' new_calls_handshake handshake_calls_def host_calls_def typescript_calls_def
          initialized_hooks_def initialize_hooks_def split: option.splits if_splits)
  qed
  from lists session show ?thesis
    by (simp only: count_list_append) blast
qed

text \<open>
  In the sample session the contribution \<^verbatim>\<open>["foo", "class"]\<close> ends the list, and
  \<^verbatim>\<open>class\<close> is now listed twice.
\<close>

theorem legend_appends_contributions_witness:
  "tokenTypes (getSemanticTokensLegend example_options) =
     tokenTypes standardSemanticTokensLegend @ [''foo'', ''class''] \<and>
   count_list (tokenTypes (getSemanticTokensLegend example_options)) ''class'' = 2 \<and>
   onInitialize example_env example_params startCommonLanguageServer =
     (Inr (initialize_result example_env example_params example_options),
      handshake_state example_env example_params example_options startCommonLanguageServer) \<and>
   initializationOptions example_params = Some example_options \<and>
   SetupCapabilities (getSemanticTokensLegend example_options) \<in>
     set (new_calls startCommonLanguageServer
       (handshake_state example_env example_params example_options startCommonLanguageServer))"
proof -
  have opts: "initializationOptions example_params = Some example_options"
    by (simp add: example_params_def)
  have extra: "semanticTokensLegend example_options =
      Some \<lparr>tokenTypes = [''foo'', ''class''], tokenModifiers = [''bar'']\<rparr>"
    by (simp add: example_options_def)
  have standard: "count_list (tokenTypes standardSemanticTokensLegend) ''class'' = 1"
    by (simp add: standardSemanticTokensLegend_def)
  from legend_appends_contributions [of example_options "''class''" "''bar''" example_env
      example_params startCommonLanguageServer
      "initialize_result example_env example_params example_options"
      "handshake_state example_env example_params example_options startCommonLanguageServer"]
    example_run opts
  show ?thesis by (simp add: extra standard)
qed

section \<open>Disposal failures during shutdown (C2)\<close>

text \<open>
  C2, as the code has it. The shutdown handler awaits and disposes the live hosts one after
  the other, with no error handling of its own: when awaiting or disposing a host throws,
  the handler ends with that error, the hosts before it have been disposed, and no call
  is made for the hosts after it.
\<close>

theorem shutdown_stops_at_first_failure:
  assumes "live_hosts s = finished @ key # rest"
    and "succeed e (dispose_calls finished)"
    and "fails e (AwaitWorkspace key) \<or> fails e (WorkspaceDispose key)"
  shows "fst (onShutdown e s) =
      Some (Thrown (if fails e (AwaitWorkspace key) then AwaitWorkspace key else WorkspaceDispose key)) \<and>
    new_calls s (snd (onShutdown e s)) = dispose_calls finished @
      (if fails e (AwaitWorkspace key) then [AwaitWorkspace key]
       else [AwaitWorkspace key, WorkspaceDispose key])"
proof -
  from assms(1) obtain p where p: "projects s = Some p" and hosts: "workspaces p = finished @ key # rest"
    by (cases "projects s") (simp_all add: live_hosts_def)
  let ?u = "s\<lparr>trace := trace s @ dispose_calls finished\<rparr>"
  have first: "seq (map (dispose_stmt e) finished) s = (None, ?u)"
    unfolding dispose_loop_ok using assms(2) by simp
  have "onShutdown e s = seq (map (dispose_stmt e) (finished @ key # rest)) s"
    by (simp add: onShutdown_def p hosts for_each_def)
  also have "\<dots> = seq (dispose_stmt e key # map (dispose_stmt e) rest) ?u"
    by (simp add: seq_append first)
  also have "\<dots> =
     (Some (Thrown (if fails e (AwaitWorkspace key) then AwaitWorkspace key else WorkspaceDispose key)),
      ?u\<lparr>trace := trace ?u @ (if fails e (AwaitWorkspace key) then [AwaitWorkspace key]
         else [AwaitWorkspace key, WorkspaceDispose key])\<rparr>)"
    by (rule dispose_stmt_throws [OF assms(3)])
  finally show ?thesis
    by (simp add: new_calls_def)
qed

text \<open>The sample session with two live hosts, where disposing the first one throws.\<close>

theorem shutdown_stops_at_first_failure_witness:
  "live_hosts example_listening = [] @ ''file:///a'' # [''file:///b''] \<and>
   succeed example_env_failing_dispose (dispose_calls []) \<and>
   fails example_env_failing_dispose (WorkspaceDispose ''file:///a'') \<and>
   fst (onShutdown example_env_failing_dispose example_listening) =
     Some (Thrown (WorkspaceDispose ''file:///a'')) \<and>
   new_calls example_listening (snd (onShutdown example_env_failing_dispose example_listening)) =
     [AwaitWorkspace ''file:///a'', WorkspaceDispose ''file:///a'']"
proof -
  have hosts: "live_hosts example_listening = [] @ ''file:///a'' # [''file:///b'']"
    by (simp add: example_listening_fields)
  have none: "succeed example_env_failing_dispose (dispose_calls [])"
    by (simp add: dispose_calls_def succeed_Nil)
  have throws: "fails example_env_failing_dispose (AwaitWorkspace ''file:///a'') \<or>
      fails example_env_failing_dispose (WorkspaceDispose ''file:///a'')"
    by (simp add: example_env_failing_dispose_def)
  have await: "\<not> fails example_env_failing_dispose (AwaitWorkspace ''file:///a'')"
    and dispose: "fails example_env_failing_dispose (WorkspaceDispose ''file:///a'')"
    by (simp_all add: example_env_failing_dispose_def)
  from shutdown_stops_at_first_failure [OF hosts none throws] hosts none await dispose
  show ?thesis by (simp add: dispose_calls_def)
qed

text \<open>
  C2 as stated fails: there the error of the first host ends the shutdown handler, and the
  second host is never disposed.
\<close>

theorem dispose_failure_blocks_shutdown_counterexample:
  "fst (onShutdown example_env_failing_dispose example_listening) =
     Some (Thrown (WorkspaceDispose ''file:///a'')) \<and>
   WorkspaceDispose ''file:///b'' \<notin>
     set (trace (snd (onShutdown example_env_failing_dispose example_listening)))"
proof -
  have "WorkspaceDispose ''file:///b'' \<notin> set (handshake_calls example_env example_params example_options rs)" for rs
    by (auto simp: handshake_calls_def host_calls_def typescript_calls_def initialized_hooks_def
        split: option.splits if_splits)
  moreover have "WorkspaceDispose ''file:///b'' \<notin> set (initialize_hooks ps)" for ps
    by (auto simp: initialize_hooks_def)
  ultimately have before: "WorkspaceDispose ''file:///b'' \<notin> set (trace example_listening)"
    by (simp add: example_listening_def example_ready_def handshake_state_def
        startCommonLanguageServer_def)
  have "onShutdown example_env_failing_dispose example_listening =
     (Some (Thrown (WorkspaceDispose ''file:///a'')),
      example_listening\<lparr>trace := trace example_listening @
        [AwaitWorkspace ''file:///a'', WorkspaceDispose ''file:///a'']\<rparr>)"
    by (simp add: onShutdown_def example_listening_fields for_each_def seq.simps(2) dispose_stmt_def
        call_def example_env_failing_dispose_def)
  with before show ?thesis by simp
qed

section \<open>The file-watcher registration (C3)\<close>

text \<open>
  C3, as the code has it. When a completed \<^verbatim>\<open>initialized\<close> handler registers for watched
  files, the glob it sends is \<^verbatim>\<open>**/*.{e1,...,en}\<close> for the concatenation, in registration
  order, of the plugins' \<^verbatim>\<open>fileWatcher\<close> extensions (a plugin without any contributes none):
  the extensions covered are the union of the plugins' contributions, nothing is removed
  from the list and there is no base set. The registration is made exactly when the list is
  not empty and the options and the client allow it.
\<close>

theorem watcher_glob_is_concatenation:
  assumes "onInitialized e s = (None, s')" and "plugins s = Some ps"
  shows "(\<forall>glob. ClientRegisterWatchedFiles glob \<in> set (new_calls s s') \<longrightarrow>
       glob = globPattern (fileWatcher_exts ps) \<and> fileWatcher_exts ps \<noteq> []) \<and>
    (ClientRegisterWatchedFiles (globPattern (fileWatcher_exts ps)) \<in> set (new_calls s s') \<longleftrightarrow>
       fileWatcher_exts ps \<noteq> [] \<and>
       (\<exists>opts params. options s = Some opts \<and> initParams s = Some params \<and> fileWatcher_enabled opts params)) \<and>
    set (fileWatcher_exts ps) =
      (\<Union>plugin\<in>set ps. case extensions_fileWatcher plugin of None \<Rightarrow> {} | Some exts \<Rightarrow> set exts) \<and>
    length (fileWatcher_exts ps) =
      sum_list (map (\<lambda>plugin. case extensions_fileWatcher plugin of None \<Rightarrow> 0 | Some exts \<Rightarrow> length exts) ps)"
proof -
  from assms obtain params opts where params: "initParams s = Some params" and opts: "options s = Some opts"
    and s': "s' = s\<lparr>trace := trace s @ ready_calls s params @ watcher_calls opts params ps,
        folders_listeners := folders_listeners s +
          (if truthy (workspace_cap workspaceFolders_cap params) then 1 else 0)\<rparr>"
    unfolding onInitialized_ok [OF assms(2)] by blast
  have calls: "new_calls s s' = ready_calls s params @ watcher_calls opts params ps"
    by (rule new_calls_append) (simp add: s')
  have "glob = globPattern (fileWatcher_exts ps) \<and> fileWatcher_exts ps \<noteq> []"
    if "ClientRegisterWatchedFiles glob \<in> set (new_calls s s')" for glob
    using that unfolding calls
    by (auto simp: ready_calls_def watcher_calls_def split: if_splits)
  moreover have "ClientRegisterWatchedFiles (globPattern (fileWatcher_exts ps)) \<in> set (new_calls s s') \<longleftrightarrow>
       fileWatcher_exts ps \<noteq> [] \<and>
       (\<exists>opts params. options s = Some opts \<and> initParams s = Some params \<and> fileWatcher_enabled opts params)"
    unfolding calls
    by (auto simp: ready_calls_def watcher_calls_def params opts split: if_splits)
  ultimately show ?thesis
    using set_fileWatcher_exts [of ps] length_fileWatcher_exts [of ps] by blast
qed

text \<open>The sample session: both plugins contribute \<^verbatim>\<open>vue\<close>.\<close>

theorem watcher_glob_is_concatenation_witness:
  "onInitialized example_env example_ready = (None, example_listening) \<and>
   plugins example_ready = Some [example_plugin, example_plugin] \<and>
   ClientRegisterWatchedFiles ''**/*.{vue,vue}'' \<in> set (new_calls example_ready example_listening) \<and>
   globPattern (fileWatcher_exts [example_plugin, example_plugin]) = ''**/*.{vue,vue}''"
  using watcher_glob_is_concatenation [OF example_initialized example_ready_fields(1)]
  by (simp add: example_initialized example_ready_fields example_listening_calls example_exts
      globPattern_def)

text \<open>
  C3 as stated fails: the glob registered there lists \<^verbatim>\<open>vue\<close> twice, and the glob of the
  de-duplicated extensions is not the one registered.
\<close>

theorem watcher_glob_keeps_duplicates_counterexample:
  "ClientRegisterWatchedFiles ''**/*.{vue,vue}'' \<in>
     set (new_calls example_ready (snd (onInitialized example_env example_ready))) \<and>
   ClientRegisterWatchedFiles (globPattern (deduplicated_extensions [] [example_plugin, example_plugin])) \<notin>
     set (new_calls example_ready (snd (onInitialized example_env example_ready))) \<and>
   globPattern (deduplicated_extensions [] [example_plugin, example_plugin]) = ''**/*.{vue}''"
  by (simp add: example_initialized example_listening_calls deduplicated_extensions_def example_exts
      globPattern_def)

section \<open>The plugin hooks (C4)\<close>

text \<open>
  C4, as the code has it. In a completed handshake every plugin's \<^verbatim>\<open>onInitialized\<close> hook
  (fired at the end of \<^verbatim>\<open>createLanguageServiceHost\<close>, once the Project Registry is built)
  fires before the package metadata is loaded, and every plugin's \<^verbatim>\<open>onInitialize\<close> hook
  (fired with the computed result, just before the response) fires after it; each kind
  fires once for every plugin that defines it, in registration order.
\<close>

theorem hooks_fire_in_order:
  assumes "onInitialize e params s = (Inr r, s')"
  shows "\<exists>opts pre. initializationOptions params = Some opts \<and>
     new_calls s s' = pre @ initialized_hooks (created_plugins e opts) @ [RequirePackageJson] @
        initialize_hooks (created_plugins e opts) \<and>
     (\<forall>i. PluginOnInitialized i \<notin> set pre \<and> PluginOnInitialize i \<notin> set pre) \<and>
     (\<forall>i j. PluginOnInitialized i \<in> set (new_calls s s') \<longrightarrow>
        fires_before (PluginOnInitialized i) (PluginOnInitialize j) (new_calls s s'))"
proof -
  from assms obtain opts where opts: "initializationOptions params = Some opts"
    and s': "s' = handshake_state e params opts s"
    unfolding onInitialize_ok by blast
  let ?ps = "created_plugins e opts"
  define pre where "pre =
     map PluginCreate [0..<length (context_plugins e)] @
     (case l10n opts of None \<Rightarrow> [] | Some location \<Rightarrow> [L10nConfig location]) @
     (if truthy (workspace_cap configuration params) then [CreateConfigurationHost] else []) @
     [SetupCapabilities (getSemanticTokensLegend opts)] @
     typescript_calls opts params @
     [CreateCancellationTokenHost (cancellationPipeName opts), CreateWorkspaces] @
     map ProjectsAdd (initial_roots e params (roots s)) @
     [RegisterCustomFeatures, RegisterLanguageFeatures (getSemanticTokensLegend opts)]"
  have calls: "new_calls s s' = pre @ initialized_hooks ?ps @ [RequirePackageJson] @ initialize_hooks ?ps"
    by (simp add: s' new_calls_handshake handshake_calls_def host_calls_def pre_def)
  have pre: "PluginOnInitialized i \<notin> set pre \<and> PluginOnInitialize i \<notin> set pre" for i
    by (auto simp: pre_def typescript_calls_def split: option.splits if_splits)
  have before: "fires_before (PluginOnInitialized i) (PluginOnInitialize j) (new_calls s s')"
    if "PluginOnInitialized i \<in> set (new_calls s s')" for i j
  proof -
    let ?early = "pre @ initialized_hooks ?ps @ [RequirePackageJson]"
    have keep: "\<forall>ev\<in>set ?early. ev \<noteq> PluginOnInitialize j"
      using pre by (auto simp: initialized_hooks_def)
    have "PluginOnInitialized i \<notin> set (initialize_hooks ?ps)"
      by (auto simp: initialize_hooks_def)
    with that have early: "PluginOnInitialized i \<in> set ?early"
      by (auto simp: calls)
    have split: "new_calls s s' = ?early @ initialize_hooks ?ps"
      by (simp add: calls)
    have "takeWhile (\<lambda>ev. ev \<noteq> PluginOnInitialize j) (?early @ initialize_hooks ?ps) =
        ?early @ takeWhile (\<lambda>ev. ev \<noteq> PluginOnInitialize j) (initialize_hooks ?ps)"
      by (rule takeWhile_append2) (use keep in blast)
    with early show ?thesis
      unfolding fires_before_def split by (simp only: set_append) blast
  qed
  from opts calls pre before show ?thesis by blast
qed

text \<open>The theorem at the sample session.\<close>

theorem hooks_fire_in_order_witness:
  "fst (onInitialize example_env example_params startCommonLanguageServer) =
     Inr (initialize_result example_env example_params example_options) \<and>
   (\<exists>opts pre. initializationOptions example_params = Some opts \<and>
     new_calls startCommonLanguageServer
       (snd (onInitialize example_env example_params startCommonLanguageServer)) =
       pre @ initialized_hooks (created_plugins example_env opts) @ [RequirePackageJson] @
        initialize_hooks (created_plugins example_env opts) \<and>
     (\<forall>i. PluginOnInitialized i \<notin> set pre \<and> PluginOnInitialize i \<notin> set pre) \<and>
     (\<forall>i j. PluginOnInitialized i \<in> set (new_calls startCommonLanguageServer
           (snd (onInitialize example_env example_params startCommonLanguageServer))) \<longrightarrow>
        fires_before (PluginOnInitialized i) (PluginOnInitialize j)
          (new_calls startCommonLanguageServer
            (snd (onInitialize example_env example_params startCommonLanguageServer)))))"
  using hooks_fire_in_order [OF example_run] by (simp add: example_run)

text \<open>
  C4 as stated fails: in the sample session the \<^verbatim>\<open>onInitialize\<close> hook of the first plugin
  does not fire before its \<^verbatim>\<open>onInitialized\<close> hook, but after it.
\<close>

theorem first_hook_fires_last_counterexample:
  "\<not> fires_before (PluginOnInitialize 0) (PluginOnInitialized 0)
       (new_calls startCommonLanguageServer
         (snd (onInitialize example_env example_params startCommonLanguageServer))) \<and>
   fires_before (PluginOnInitialized 0) (PluginOnInitialize 0)
       (new_calls startCommonLanguageServer
         (snd (onInitialize example_env example_params startCommonLanguageServer)))"
  by (simp add: example_run example_calls fires_before_def)

section \<open>Shutdown disposes every live host (C5)\<close>

text \<open>
  C5. A shutdown handler that returns, and so lets the request be acknowledged, has by then
  awaited and disposed every live Project Host, in the order of the registry, and each of
  these calls has returned. It does return whenever none of these calls throws.
\<close>

theorem shutdown_disposes_every_host:
  "(onShutdown e s = (None, s') \<longrightarrow>
      new_calls s s' = dispose_calls (live_hosts s) \<and>
      (\<forall>key\<in>set (live_hosts s). WorkspaceDispose key \<in> set (new_calls s s') \<and>
         \<not> fails e (AwaitWorkspace key) \<and> \<not> fails e (WorkspaceDispose key))) \<and>
   (succeed e (dispose_calls (live_hosts s)) \<longrightarrow> fst (onShutdown e s) = None)"
proof -
  have "new_calls s s' = dispose_calls (live_hosts s) \<and>
      (\<forall>key\<in>set (live_hosts s). WorkspaceDispose key \<in> set (new_calls s s') \<and>
         \<not> fails e (AwaitWorkspace key) \<and> \<not> fails e (WorkspaceDispose key))"
    if "onShutdown e s = (None, s')"
  proof -
    from that have ok: "succeed e (dispose_calls (live_hosts s))"
      and s': "s' = s\<lparr>trace := trace s @ dispose_calls (live_hosts s)\<rparr>"
      unfolding onShutdown_ok by blast+
    have calls: "new_calls s s' = dispose_calls (live_hosts s)"
      by (rule new_calls_append) (simp add: s')
    from ok show ?thesis
      unfolding calls by (auto simp: succeed_def dispose_calls_def)
  qed
  moreover have "fst (onShutdown e s) = None" if "succeed e (dispose_calls (live_hosts s))"
    using that onShutdown_ok [of e s "s\<lparr>trace := trace s @ dispose_calls (live_hosts s)\<rparr>"]
    by simp
  ultimately show ?thesis by blast
qed

text \<open>The sample session with its two live hosts.\<close>

theorem shutdown_disposes_every_host_witness:
  "live_hosts example_listening = [''file:///a'', ''file:///b''] \<and>
   succeed example_env (dispose_calls (live_hosts example_listening)) \<and>
   fst (onShutdown example_env example_listening) = None \<and>
   new_calls example_listening (snd (onShutdown example_env example_listening)) =
     [AwaitWorkspace ''file:///a'', WorkspaceDispose ''file:///a'',
      AwaitWorkspace ''file:///b'', WorkspaceDispose ''file:///b'']"
proof -
  have calm: "succeed example_env (dispose_calls (live_hosts example_listening))"
    by (rule succeed_all) (simp add: example_env_def)
  have calls: "dispose_calls [''file:///a'', ''file:///b''] =
     [AwaitWorkspace ''file:///a'', WorkspaceDispose ''file:///a'',
      AwaitWorkspace ''file:///b'', WorkspaceDispose ''file:///b'']"
    by (simp add: dispose_calls_def)
  note at_sample = shutdown_disposes_every_host [of example_env example_listening
      "snd (onShutdown example_env example_listening)"]
  from at_sample calm have "fst (onShutdown example_env example_listening) = None"
    by simp
  moreover from this have "onShutdown example_env example_listening =
      (None, snd (onShutdown example_env example_listening))"
    by (simp add: prod_eq_iff)
  ultimately show ?thesis
    using at_sample calm by (simp add: calls example_listening_fields)
qed

section \<open>The initial roots (C6)\<close>

text \<open>
  C6, as the code has it. A completed first handshake leaves as roots the workspace folders
  when the client advertises workspace-folder support and folders are supplied, otherwise
  the single \<^verbatim>\<open>rootUri\<close>, otherwise the single \<^verbatim>\<open>rootPath\<close>, otherwise none; the Project
  Registry is the freshly created one with these roots added, and the handshake's calls of
  the registry's \<^verbatim>\<open>add\<close> are exactly the entries of that list, in order, one call for each
  entry. A root is therefore added as often as the list names it: exactly once only when
  the parsed roots are pairwise distinct.
\<close>

theorem registry_built_from_initial_roots:
  assumes "onInitialize e params s = (Inr r, s')" and "roots s = []"
  shows "roots s' = handshake_roots e params \<and>
    projects s' = Some (fold (projects_add e) (handshake_roots e params) (createWorkspaces e)) \<and>
    filter is_ProjectsAdd (new_calls s s') = map ProjectsAdd (handshake_roots e params) \<and>
    (\<forall>root. count_list (new_calls s s') (ProjectsAdd root) = count_list (handshake_roots e params) root) \<and>
    (distinct (handshake_roots e params) \<longrightarrow>
       (\<forall>root\<in>set (handshake_roots e params). count_list (new_calls s s') (ProjectsAdd root) = 1))"
proof -
  from assms(1) obtain opts where s': "s' = handshake_state e params opts s"
    unfolding onInitialize_ok by blast
  have rs: "initial_roots e params (roots s) = handshake_roots e params"
    by (simp add: assms(2) initial_roots_first)
  have adds: "filter is_ProjectsAdd (new_calls s s') = map ProjectsAdd (handshake_roots e params)"
    by (simp only: s' new_calls_handshake filter_adds_handshake rs)
  have counts: "count_list (new_calls s s') (ProjectsAdd root) = count_list (handshake_roots e params) root"
    for root
    using count_filter_adds [of "new_calls s s'" root] by (simp only: adds count_adds)
  have once: "count_list (new_calls s s') (ProjectsAdd root) = 1"
    if "distinct (handshake_roots e params)" and "root \<in> set (handshake_roots e params)" for root
    using that by (simp add: counts count_distinct)
  have "roots s' = handshake_roots e params"
    and "projects s' = Some (fold (projects_add e) (handshake_roots e params) (createWorkspaces e))"
    by (simp_all add: s' handshake_state_def rs)
  with adds counts once show ?thesis by blast
qed

text \<open>The sample session: two workspace folders, which take precedence over \<^verbatim>\<open>rootUri\<close>.\<close>

theorem registry_built_from_initial_roots_witness:
  "onInitialize example_env example_params startCommonLanguageServer =
     (Inr (initialize_result example_env example_params example_options), example_ready) \<and>
   roots startCommonLanguageServer = [] \<and>
   handshake_roots example_env example_params = [URI ''file:///a'', URI ''file:///b''] \<and>
   distinct (handshake_roots example_env example_params) \<and>
   filter is_ProjectsAdd (new_calls startCommonLanguageServer example_ready) =
     [ProjectsAdd (URI ''file:///a''), ProjectsAdd (URI ''file:///b'')] \<and>
   count_list (new_calls startCommonLanguageServer example_ready) (ProjectsAdd (URI ''file:///a'')) = 1"
proof -
  have start: "roots startCommonLanguageServer = []"
    by (simp add: startCommonLanguageServer_def)
  have run: "onInitialize example_env example_params startCommonLanguageServer =
     (Inr (initialize_result example_env example_params example_options), example_ready)"
    by (simp add: example_run example_ready_def)
  have rs: "handshake_roots example_env example_params = [URI ''file:///a'', URI ''file:///b'']"
    by (simp add: handshake_roots_def example_params_def truthy_def workspace_cap_def example_parse)
  from registry_built_from_initial_roots [OF run start] run start rs
  show ?thesis by simp
qed

text \<open>
  C6 as stated fails: when the client names the folder \<^verbatim>\<open>file:///a\<close> twice, the handshake
  completes and has added that one root twice.
\<close>

theorem root_named_twice_is_added_twice_counterexample:
  "fst (onInitialize example_env example_params_twice startCommonLanguageServer) =
     Inr (initialize_result example_env example_params_twice example_options) \<and>
   roots (snd (onInitialize example_env example_params_twice startCommonLanguageServer)) =
     [URI ''file:///a'', URI ''file:///a''] \<and>
   count_list (new_calls startCommonLanguageServer
       (snd (onInitialize example_env example_params_twice startCommonLanguageServer)))
     (ProjectsAdd (URI ''file:///a'')) = 2"
proof -
  have opts: "initializationOptions example_params_twice = Some example_options"
    by (simp add: example_params_twice_def example_params_def)
  have run: "onInitialize example_env example_params_twice startCommonLanguageServer =
     (Inr (initialize_result example_env example_params_twice example_options),
      handshake_state example_env example_params_twice example_options startCommonLanguageServer)"
    by (rule onInitialize_completes) (simp_all add: example_env_def opts)
  have rs: "initial_roots example_env example_params_twice (roots startCommonLanguageServer) =
      [URI ''file:///a'', URI ''file:///a'']"
    by (simp add: initial_roots_def example_params_twice_def example_params_def truthy_def
        workspace_cap_def example_parse startCommonLanguageServer_def)
  have "count_list (new_calls startCommonLanguageServer
       (handshake_state example_env example_params_twice example_options startCommonLanguageServer))
     (ProjectsAdd (URI ''file:///a'')) = count_list [URI ''file:///a'', URI ''file:///a''] (URI ''file:///a'')"
    using count_filter_adds [of "new_calls startCommonLanguageServer
       (handshake_state example_env example_params_twice example_options startCommonLanguageServer)"
       "URI ''file:///a''"]
    by (simp only: new_calls_handshake filter_adds_handshake rs count_adds)
  moreover have "roots (handshake_state example_env example_params_twice example_options
      startCommonLanguageServer) = [URI ''file:///a'', URI ''file:///a'']"
    by (simp add: handshake_state_def rs)
  ultimately show ?thesis by (simp add: run)
qed

section \<open>Folder changes (C7)\<close>




section \<open>The configuration host (C8)\<close>

text \<open>
  C8. A completed handshake has created the configuration host if and only if the client
  advertises workspace configuration support; without it the session has no configuration
  host. The handshake completes either way: it does whenever the initialization options
  are present and none of its calls throws.
\<close>

theorem configuration_host_is_optional:
  "(\<forall>r s'. onInitialize e params s = (Inr r, s') \<longrightarrow>
      configurationHost s' =
        (if workspace_cap configuration params = Some True then Some ConfigurationHost else None) \<and>
      (CreateConfigurationHost \<in> set (new_calls s s') \<longleftrightarrow>
         workspace_cap configuration params = Some True)) \<and>
   ((\<forall>ev. \<not> fails e ev) \<and> initializationOptions params \<noteq> None \<longrightarrow>
      (\<exists>r s'. onInitialize e params s = (Inr r, s')))"
proof -
  have "configurationHost s' =
        (if workspace_cap configuration params = Some True then Some ConfigurationHost else None) \<and>
      (CreateConfigurationHost \<in> set (new_calls s s') \<longleftrightarrow>
         workspace_cap configuration params = Some True)"
    if "onInitialize e params s = (Inr r, s')" for r s'
  proof -
    from that obtain opts where s': "s' = handshake_state e params opts s"
      unfolding onInitialize_ok by blast
    have "configurationHost s' =
        (if workspace_cap configuration params = Some True then Some ConfigurationHost else None)"
      by (simp add: s' handshake_state_def truthy_def)
    moreover have "CreateConfigurationHost \<in> set (new_calls s s') \<longleftrightarrow>
         workspace_cap configuration params = Some True"
      by (auto simp: s' new_calls_handshake handshake_calls_def host_calls_def typescript_calls_def
          initialized_hooks_def initialize_hooks_def truthy_def split: option.splits if_splits)
    ultimately show ?thesis by blast
  qed
  moreover have "\<exists>r s'. onInitialize e params s = (Inr r, s')"
    if "\<forall>ev. \<not> fails e ev" and "initializationOptions params \<noteq> None"
  proof -
    from that(2) obtain opts where "initializationOptions params = Some opts" by blast
    with that(1) onInitialize_completes [of e params opts s] show ?thesis by blast
  qed
  ultimately show ?thesis by blast
qed

text \<open>A client that advertises no workspace capability at all.\<close>

theorem configuration_host_is_optional_witness:
  "workspace_cap configuration example_params_plain \<noteq> Some True \<and>
   (\<forall>ev. \<not> fails example_env ev) \<and> initializationOptions example_params_plain \<noteq> None \<and>
   (\<exists>r s'. onInitialize example_env example_params_plain startCommonLanguageServer = (Inr r, s') \<and>
      configurationHost s' = None \<and>
      CreateConfigurationHost \<notin> set (new_calls startCommonLanguageServer s'))"
proof -
  have absent: "workspace_cap configuration example_params_plain \<noteq> Some True"
    by (simp add: example_params_plain_def workspace_cap_def)
  have calm: "\<forall>ev. \<not> fails example_env ev"
    by (simp add: example_env_def)
  have opts: "initializationOptions example_params_plain \<noteq> None"
    by (simp add: example_params_plain_def example_params_def)
  from configuration_host_is_optional [of example_env example_params_plain startCommonLanguageServer]
    absent calm opts
  show ?thesis by (simp only: simp_thms if_False) blast
qed

section \<open>The text-document sync mode (C9)\<close>

text \<open>
  C9. The initialize response carries the sync mode of the initialization options, and
  \<^verbatim>\<open>Incremental\<close> when the options give none, provided that \<^verbatim>\<open>setupCapabilities\<close> and the
  plugins' \<^verbatim>\<open>onInitialize\<close> hooks, which receive the result after the handler has set the
  mode, leave that field as it is.
\<close>

theorem textDocumentSync_defaults_to_incremental:
  assumes "onInitialize e params s = (Inr r, s')"
    and "initializationOptions params = Some opts"
    and "\<forall>client caps os ps legend.
          cap_textDocumentSync (setupCapabilities e client caps os ps legend) = cap_textDocumentSync caps"
    and "\<forall>plugin\<in>set (created_plugins e opts). \<forall>hook x. plugin_onInitialize plugin = Some hook \<longrightarrow>
          cap_textDocumentSync (result_capabilities (hook x)) = cap_textDocumentSync (result_capabilities x)"
  shows "cap_textDocumentSync (result_capabilities r) =
    Some (case textDocumentSync opts of None \<Rightarrow> Incremental | Some kind \<Rightarrow> kind)"
proof -
  from assms(1,2) have r: "r = initialize_result e params opts"
    unfolding onInitialize_ok by auto
  show ?thesis
    unfolding r initialize_result_def
    using run_hooks_keeps [where f = "\<lambda>x. cap_textDocumentSync (result_capabilities x)", OF assms(4)]
    by (simp add: assms(3))
qed

text \<open>The sample session gives no mode.\<close>

theorem textDocumentSync_defaults_to_incremental_witness:
  "fst (onInitialize example_env example_params startCommonLanguageServer) =
     Inr (initialize_result example_env example_params example_options) \<and>
   initializationOptions example_params = Some example_options \<and>
   textDocumentSync example_options = None \<and>
   cap_textDocumentSync (result_capabilities
     (initialize_result example_env example_params example_options)) = Some 2"
proof -
  have opts: "initializationOptions example_params = Some example_options"
    by (simp add: example_params_def)
  have kept: "\<forall>client caps os ps legend.
      cap_textDocumentSync (setupCapabilities example_env client caps os ps legend) = cap_textDocumentSync caps"
    by (simp add: example_env_def)
  have hooks: "\<forall>plugin\<in>set (created_plugins example_env example_options). \<forall>hook x.
      plugin_onInitialize plugin = Some hook \<longrightarrow>
      cap_textDocumentSync (result_capabilities (hook x)) = cap_textDocumentSync (result_capabilities x)"
    by (auto simp: example_plugins example_plugin_def)
  have none: "textDocumentSync example_options = None"
    by (simp add: example_options_def)
  from textDocumentSync_defaults_to_incremental [OF example_run opts kept hooks] opts none
  show ?thesis by (simp add: example_run Incremental_def)
qed

section \<open>The package metadata (C10)\<close>

text \<open>
  C10. Whether the handshake completes does not depend on the package metadata: when
  loading it throws, the handshake completes exactly when it would have completed had the
  load succeeded, and the response then has no \<^verbatim>\<open>serverInfo\<close> (as long as no plugin hook
  adds one).
\<close>

theorem metadata_failure_is_swallowed:
  assumes "fails e RequirePackageJson"
  shows "((\<exists>r s'. onInitialize e params s = (Inr r, s')) \<longleftrightarrow>
      (\<exists>r s'. onInitialize (e\<lparr>fails := (fails e)(RequirePackageJson := False)\<rparr>) params s = (Inr r, s'))) \<and>
     (\<forall>r s' opts. onInitialize e params s = (Inr r, s') \<and> initializationOptions params = Some opts \<and>
        (\<forall>plugin\<in>set (created_plugins e opts). \<forall>hook x. plugin_onInitialize plugin = Some hook \<longrightarrow>
           serverInfo (hook x) = serverInfo x) \<longrightarrow> serverInfo r = None)"
proof -
  let ?e = "e\<lparr>fails := (fails e)(RequirePackageJson := False)\<rparr>"
  have same: "handshake_calls ?e params opts rs = handshake_calls e params opts rs"
    "created_plugins ?e opts = created_plugins e opts"
    "initial_roots ?e params rs = initial_roots e params rs" for opts rs
    by (auto simp: handshake_calls_def created_plugins_def initial_roots_def split: option.splits)
  have "(\<exists>r s'. onInitialize ?e params s = (Inr r, s')) \<longleftrightarrow> (\<exists>r s'. onInitialize e params s = (Inr r, s'))"
    unfolding onInitialize_ok same
    by (simp add: succeed_without_require handshake_calls_no_require initialize_hooks_no_require)
  moreover have "serverInfo r = None"
    if run: "onInitialize e params s = (Inr r, s')" and opts: "initializationOptions params = Some opts"
      and hooks: "\<forall>plugin\<in>set (created_plugins e opts). \<forall>hook x. plugin_onInitialize plugin = Some hook \<longrightarrow>
           serverInfo (hook x) = serverInfo x" for r s' opts
  proof -
    from run opts have r: "r = initialize_result e params opts"
      unfolding onInitialize_ok by auto
    show ?thesis
      unfolding r initialize_result_def
      using run_hooks_keeps [where f = serverInfo, OF hooks] by (simp add: assms)
  qed
  ultimately show ?thesis by blast
qed

text \<open>The sample session with a package file that cannot be loaded.\<close>

theorem metadata_failure_is_swallowed_witness:
  "fails example_env_no_metadata RequirePackageJson \<and>
   onInitialize example_env_no_metadata example_params startCommonLanguageServer =
     (Inr (initialize_result example_env_no_metadata example_params example_options),
      handshake_state example_env_no_metadata example_params example_options startCommonLanguageServer) \<and>
   serverInfo (initialize_result example_env_no_metadata example_params example_options) = None"
proof -
  have throws: "fails example_env_no_metadata RequirePackageJson"
    by (simp add: example_env_no_metadata_def)
  have opts: "initializationOptions example_params = Some example_options"
    by (simp add: example_params_def)
  have run: "onInitialize example_env_no_metadata example_params startCommonLanguageServer =
     (Inr (initialize_result example_env_no_metadata example_params example_options),
      handshake_state example_env_no_metadata example_params example_options startCommonLanguageServer)"
    by (rule onInitialize_completes) (simp_all add: example_env_no_metadata_def opts)
  have hooks: "\<forall>plugin\<in>set (created_plugins example_env_no_metadata example_options). \<forall>hook x.
      plugin_onInitialize plugin = Some hook \<longrightarrow> serverInfo (hook x) = serverInfo x"
    by (auto simp: created_plugins_def example_env_no_metadata_def example_env_def example_plugin_def)
  from metadata_failure_is_swallowed [OF throws, of example_params startCommonLanguageServer]
    run opts hooks throws
  show ?thesis by blast
qed

end

